theory Spec2Isabelle
  imports Complex_Main "HOL-Library.AList"
begin

section \<open>Data model\<close>

text \<open>
  Exceptions of the Python source are values.  \<open>NameError\<close>, \<open>UnboundLocalError\<close>,
  \<open>KeyError\<close>, \<open>AttributeError\<close>, \<open>ValueError\<close>, \<open>ZeroDivisionError\<close> and
  \<open>SystemExit\<close> are raised by the interpreter on the code of \<^verbatim>\<open>QualityControl.py\<close>
  itself; \<open>IOError\<close>, \<open>ReadFormatError\<close>, \<open>AlignmentFormatError\<close> and
  \<open>ReferenceNotFoundError\<close> are the failures of the file readers the module calls.
\<close>

datatype error =
    IOError string
  | KeyError string
  | NameError string
  | UnboundLocalError string
  | AttributeError string
  | ValueError string
  | ZeroDivisionError
  | SystemExit int
  | ReadFormatError
  | AlignmentFormatError
  | ReferenceNotFoundError string

text \<open>A Python dict is an association list with distinct keys, in insertion order.\<close>

type_synonym ('k, 'v) dict = "('k \<times> 'v) list"

definition dict_set :: "'k \<Rightarrow> 'v \<Rightarrow> ('k, 'v) dict \<Rightarrow> ('k, 'v) dict" where
  "dict_set k v d = AList.update k v d"

definition dict_keys :: "('k, 'v) dict \<Rightarrow> 'k list" where
  "dict_keys d = map fst d"

text \<open>The values a QC dict holds: counts, sample labels, or \<open>None\<close>.\<close>

datatype pyval = PyInt int | PyStr string | PyNone

text \<open>
  One record of an alignment file, as the module reads it through \<^verbatim>\<open>pysam\<close>: the read
  identifier \<open>qname\<close>, the name of the reference it is aligned to, and the interval
  it covers there.
\<close>

record alignment =
  qname :: string
  rname :: string
  pos :: nat
  aend :: nat

record bam =
  references :: "string list"
  alignments :: "alignment list"

datatype content = TextFile "string list" | BamFile bam

text \<open>The world outside the objects: files by path, directories, and the lines printed.\<close>

record world =
  files :: "string \<rightharpoonup> content"
  dirs :: "string set"
  stdout :: "string list"

record sample =
  label :: string
  reads_filename :: string
  bam_filename :: string

record pipeline =
  settings_info :: "(string, string) dict"
  pipeline_outdirs :: "(string, string) dict"

text \<open>
  The attributes of a \<^verbatim>\<open>QualityControl\<close> object.  The attributes \<^verbatim>\<open>pipeline\<close>, \<^verbatim>\<open>sample\<close>
  and \<^verbatim>\<open>settings_info\<close> are the fields \<open>qc_pipeline\<close>, \<open>qc_sample\<close> and
  \<open>qc_settings_info\<close>; the other fields have the names of the source.
\<close>

record QualityControl =
  qc_pipeline :: pipeline
  qc_sample :: sample
  qc_settings_info :: "(string, string) dict"
  qc_filename :: "string option"
  qc_header :: "string list"
  qc_results :: "(string, pyval) dict"
  qc_outdir :: string
  num_reads :: "int option"
  num_mapped :: "int option"
  num_ribo :: "int option"
  num_mito :: "int option"
  num_intronic :: "int option"
  num_intergenic :: "int option"

text \<open>
  \<^verbatim>\<open>QualityControl.__init__\<close> (lines 20-44).  The lookup
  \<^verbatim>\<open>pipeline.pipeline_outdirs["qc"]\<close> raises \<open>KeyError\<close> on a missing key.
\<close>

definition QualityControl_init :: "sample \<Rightarrow> pipeline \<Rightarrow> error + QualityControl" where
  "QualityControl_init s p =
     (case map_of (pipeline_outdirs p) ''qc'' of
        None \<Rightarrow> Inl (KeyError ''qc'')
      | Some d \<Rightarrow> Inr \<lparr> qc_pipeline = p, qc_sample = s, qc_settings_info = settings_info p,
                        qc_filename = None, qc_header = [], qc_results = [],
                        qc_outdir = d, num_reads = None, num_mapped = None,
                        num_ribo = None, num_mito = None, num_intronic = None,
                        num_intergenic = None \<rparr>)"

section \<open>The file readers\<close>

text \<open>A read entry: header, sequence, secondary header, quality string.\<close>

type_synonym fastq_entry = "string \<times> string \<times> string \<times> string"

text \<open>
  Modelled from the spec: \<^verbatim>\<open>fastq_utils.read_open_fastq\<close> is not among the sources.  It
  opens the read file for reading and hands back its lines; a path with no text file
  behind it fails.
\<close>

definition read_open_fastq :: "string \<Rightarrow> world \<Rightarrow> error + string list" where
  "read_open_fastq fname w =
     (case files w fname of
        Some (TextFile ls) \<Rightarrow> Inr ls
      | Some (BamFile b) \<Rightarrow> Inl ReadFormatError
      | None \<Rightarrow> Inl (IOError fname))"

text \<open>
  Modelled from the spec: \<^verbatim>\<open>fastq_utils.read_fastq\<close> is not among the sources.  The read
  file is a sequence of fixed 4-line entries (header, sequence, secondary header,
  quality string), streamed lazily: the entries read so far are handed out before a
  group that is not complete fails with \<open>ReadFormatError\<close>.  A stream is the list of
  the entries it yields and the exception, if any, that ends it.
\<close>

type_synonym 'a pystream = "'a list \<times> error option"

fun read_fastq :: "string list \<Rightarrow> fastq_entry pystream" where
  "read_fastq [] = ([], None)"
| "read_fastq (h1 # s # h2 # q # rest) =
     (case read_fastq rest of (es, e) \<Rightarrow> ((h1, s, h2, q) # es, e))"
| "read_fastq _ = ([], Some ReadFormatError)"

text \<open>
  Modelled from the spec: \<^verbatim>\<open>fastq_utils.get_fastq_entries\<close> is not among the sources.  It
  streams the entries of the read file at a path, a fresh stream per call.
\<close>

definition get_fastq_entries :: "string \<Rightarrow> world \<Rightarrow> error + fastq_entry pystream" where
  "get_fastq_entries fname w =
     (case read_open_fastq fname w of
        Inl e \<Rightarrow> Inl e
      | Inr ls \<Rightarrow> Inr (read_fastq ls))"

text \<open>
  \<^verbatim>\<open>pysam.Samfile(filename, "rb")\<close>: opens an alignment container read-only.  What is
  not an alignment container fails.
\<close>

definition Samfile :: "string \<Rightarrow> world \<Rightarrow> error + bam" where
  "Samfile fname w =
     (case files w fname of
        Some (BamFile b) \<Rightarrow> Inr b
      | Some (TextFile ls) \<Rightarrow> Inl AlignmentFormatError
      | None \<Rightarrow> Inl (IOError fname))"

text \<open>
  \<^verbatim>\<open>Samfile.fetch(reference, start, end)\<close>: the records aligned to \<open>reference\<close> that
  overlap the interval from \<open>start\<close> to \<open>endpos\<close> (the \<^verbatim>\<open>end\<close> of the call), in
  file order; a bound that is \<open>None\<close> does not restrict.  A reference the file does not list fails.
\<close>

definition in_region :: "nat option \<Rightarrow> nat option \<Rightarrow> alignment \<Rightarrow> bool" where
  "in_region start endpos r =
     ((case endpos of None \<Rightarrow> True | Some e \<Rightarrow> pos r < e) \<and>
      (case start of None \<Rightarrow> True | Some s \<Rightarrow> s < aend r))"

definition fetch :: "bam \<Rightarrow> string \<Rightarrow> nat option \<Rightarrow> nat option \<Rightarrow> error + alignment list" where
  "fetch b reference start endpos =
     (if reference \<in> set (references b)
      then Inr (filter (\<lambda>r. rname r = reference \<and> in_region start endpos r) (alignments b))
      else Inl (ReferenceNotFoundError reference))"

section \<open>QualityControl: the per-sample counts\<close>

text \<open>
  Every method takes the object and the world and returns its result (or the exception
  it raises) together with the object and the world as it leaves them.
\<close>

type_synonym ('a, 's) outcome = "(error + 'a) \<times> 's \<times> world"

text \<open>The loop of lines 53-54: \<^verbatim>\<open>for entry in fastq_entries: num_reads += 1\<close>.\<close>

fun count_entries :: "'a list \<Rightarrow> int \<Rightarrow> int" where
  "count_entries [] n = n"
| "count_entries (entry # rest) n = count_entries rest (n + 1)"

text \<open>\<^verbatim>\<open>get_num_reads\<close> (lines 47-56).\<close>

definition get_num_reads :: "QualityControl \<Rightarrow> world \<Rightarrow> (int, QualityControl) outcome" where
  "get_num_reads self w =
     (case get_fastq_entries (reads_filename (qc_sample self)) w of
        Inl e \<Rightarrow> (Inl e, self, w)
      | Inr (fastq_entries, stream_end) \<Rightarrow>
          let n = count_entries fastq_entries 0
          in (case stream_end of
                Some e \<Rightarrow> (Inl e, self, w)
              | None \<Rightarrow> (Inr n, self\<lparr>num_reads := Some n\<rparr>, w)))"

text \<open>The loop of lines 66-68: \<^verbatim>\<open>for read in bamfile: bam_read_ids[read.qname] = 1\<close>.\<close>

fun collect_read_ids :: "alignment list \<Rightarrow> (string, int) dict \<Rightarrow> (string, int) dict" where
  "collect_read_ids [] bam_read_ids = bam_read_ids"
| "collect_read_ids (read # rest) bam_read_ids =
     collect_read_ids rest (dict_set (qname read) 1 bam_read_ids)"

text \<open>\<^verbatim>\<open>get_num_mapped\<close> (lines 59-70).\<close>

definition get_num_mapped :: "QualityControl \<Rightarrow> world \<Rightarrow> (int, QualityControl) outcome" where
  "get_num_mapped self w =
     (case Samfile (bam_filename (qc_sample self)) w of
        Inl e \<Rightarrow> (Inl e, self, w)
      | Inr bamfile \<Rightarrow>
          let bam_read_ids = collect_read_ids (alignments bamfile) [];
              n = int (length (dict_keys bam_read_ids))
          in (Inr n, self\<lparr>num_mapped := Some n\<rparr>, w))"

text \<open>\<^verbatim>\<open>get_num_ribo\<close> (lines 81-98); \<open>chr_ribo\<close> defaults to \<^verbatim>\<open>"chrRibo"\<close>.\<close>

definition get_num_ribo :: "QualityControl \<Rightarrow> string \<Rightarrow> world \<Rightarrow> (int, QualityControl) outcome" where
  "get_num_ribo self chr_ribo w =
     (case Samfile (bam_filename (qc_sample self)) w of
        Inl e \<Rightarrow> (Inl e, self, w)
      | Inr bamfile \<Rightarrow>
          (case fetch bamfile chr_ribo None None of
             Inl e \<Rightarrow> (Inl e, self, w)
           | Inr ribo_reads \<Rightarrow> (Inr (count_entries ribo_reads 0), self, w)))"

text \<open>\<^verbatim>\<open>get_qc\<close> (lines 101-102).\<close>

definition get_qc :: "QualityControl \<Rightarrow> world \<Rightarrow> ((string, pyval) dict, QualityControl) outcome" where
  "get_qc self w = (Inr (qc_results self), self, w)"

text \<open>
  \<^verbatim>\<open>compute_qc\<close> (lines 105-121).  An exception of one of the three counts leaves the
  method at once; the fields assigned before it stay assigned.
\<close>

definition compute_qc :: "QualityControl \<Rightarrow> world \<Rightarrow> ((string, pyval) dict, QualityControl) outcome" where
  "compute_qc self w =
     (case get_num_reads self w of
        (Inl e, self1, w1) \<Rightarrow> (Inl e, self1, w1)
      | (Inr nr, self1, w1) \<Rightarrow>
     (case get_num_mapped (self1\<lparr>num_reads := Some nr\<rparr>) w1 of
        (Inl e, self2, w2) \<Rightarrow> (Inl e, self2, w2)
      | (Inr nm, self2, w2) \<Rightarrow>
     (case get_num_ribo (self2\<lparr>num_mapped := Some nm\<rparr>) ''chrRibo'' w2 of
        (Inl e, self3, w3) \<Rightarrow> (Inl e, self3, w3)
      | (Inr nb, self3, w3) \<Rightarrow>
          let self4 = self3\<lparr>num_ribo := Some nb\<rparr>;
              self5 = self4\<lparr>qc_header := [''num_reads'', ''num_mapped'', ''num_ribo'']\<rparr>;
              self6 = self5\<lparr>qc_results :=
                        dict_set ''num_reads'' (PyInt nr) (qc_results self5)\<rparr>;
              self7 = self6\<lparr>qc_results :=
                        dict_set ''num_mapped'' (PyInt nm) (qc_results self6)\<rparr>;
              self8 = self7\<lparr>qc_results :=
                        dict_set ''num_ribo'' (PyInt nb) (qc_results self7)\<rparr>
          in (Inr (qc_results self8), self8, w3))))"

section \<open>QualityControl: writing the per-sample file\<close>

text \<open>\<^verbatim>\<open>os.path.join\<close> on two components, and \<^verbatim>\<open>os.path.isfile\<close>.\<close>

definition path_join :: "string \<Rightarrow> string \<Rightarrow> string" where
  "path_join a b =
     (if b \<noteq> [] \<and> hd b = CHR ''/'' then b
      else if a = [] \<or> last a = CHR ''/'' then a @ b
      else a @ ''/'' @ b)"

definition isfile :: "string \<Rightarrow> world \<Rightarrow> bool" where
  "isfile fname w = (files w fname \<noteq> None)"

text \<open>
  Modelled from the spec: \<^verbatim>\<open>utils.make_dir\<close> is not among the sources.  It creates the
  directory when it is missing and touches no file.
\<close>

definition make_dir :: "string \<Rightarrow> world \<Rightarrow> world" where
  "make_dir d w = w\<lparr>dirs := insert d (dirs w)\<rparr>"

text \<open>Decimal rendering of an integer, as \<^verbatim>\<open>str\<close> and \<^verbatim>\<open>%d\<close> give it.\<close>

fun show_nat :: "nat \<Rightarrow> string" where
  "show_nat n =
     (if n < 10 then [''0123456789'' ! n]
      else show_nat (n div 10) @ [''0123456789'' ! (n mod 10)])"

declare show_nat.simps [simp del]

definition show_int :: "int \<Rightarrow> string" where
  "show_int i = (if i < 0 then CHR ''-'' # show_nat (nat (- i)) else show_nat (nat i))"

text \<open>
  A \<^verbatim>\<open>pandas.DataFrame\<close> built from a list of dicts, and its \<^verbatim>\<open>to_csv\<close> with
  \<^verbatim>\<open>index=False\<close>: a header line of the column names, then one line per row, the cells
  joined by the separator.  A missing or \<open>None\<close> cell is written empty.  With \<open>cols\<close>
  given, those columns are written, in that order.
\<close>

record dataframe =
  columns :: "string list"
  rows :: "(string, pyval) dict list"

definition DataFrame :: "(string, pyval) dict list \<Rightarrow> dataframe" where
  "DataFrame ds = \<lparr> columns = remdups (concat (map dict_keys ds)), rows = ds \<rparr>"

fun str_join :: "string \<Rightarrow> string list \<Rightarrow> string" where
  "str_join sep [] = []"
| "str_join sep [x] = x"
| "str_join sep (x # y # ys) = x @ sep @ str_join sep (y # ys)"

fun show_cell :: "pyval option \<Rightarrow> string" where
  "show_cell (Some (PyInt i)) = show_int i"
| "show_cell (Some (PyStr s)) = s"
| "show_cell (Some PyNone) = []"
| "show_cell None = []"

definition to_csv :: "dataframe \<Rightarrow> string \<Rightarrow> string list option \<Rightarrow> string \<Rightarrow> world \<Rightarrow> world" where
  "to_csv df fname cols sep w =
     (let cs = (case cols of None \<Rightarrow> columns df | Some c \<Rightarrow> c);
          line = (\<lambda>row. str_join sep (map (\<lambda>c. show_cell (map_of row c)) cs))
      in w\<lparr>files := (files w)(fname \<mapsto> TextFile (str_join sep cs # map line (rows df)))\<rparr>)"

fun opt_val :: "int option \<Rightarrow> pyval" where
  "opt_val None = PyNone"
| "opt_val (Some i) = PyInt i"

text \<open>
  \<^verbatim>\<open>QualityControl.output_qc\<close> (lines 124-147).  In the branch taken when the file
  exists, the \<^verbatim>\<open>print\<close> of line 134 formats its message from the name
  \<^verbatim>\<open>qc_filename\<close>, which is neither a local of the method nor a name of the module (the
  path is held in \<^verbatim>\<open>self.qc_filename\<close>): evaluating it raises \<open>NameError\<close> before anything
  is printed and before the \<^verbatim>\<open>return None\<close> of line 136.  The method returns \<open>None\<close>
  after writing, too.
\<close>

definition output_qc :: "QualityControl \<Rightarrow> world \<Rightarrow> (pyval, QualityControl) outcome" where
  "output_qc self w =
     (let sample_outdir = path_join (qc_outdir self) (label (qc_sample self));
          w1 = make_dir sample_outdir w;
          fname = path_join sample_outdir (label (qc_sample self) @ ''.qc.txt'');
          self1 = self\<lparr>qc_filename := Some fname\<rparr>
      in if isfile fname w1 then (Inl (NameError ''qc_filename''), self1, w1)
         else
           let qc_headers = [''num_reads'', ''num_mapped'', ''num_ribo''];
               qc_entry = [(''num_reads'', opt_val (num_reads self1)),
                           (''num_mapped'', opt_val (num_mapped self1)),
                           (''num_ribo'', opt_val (num_ribo self1))];
               qc_df = DataFrame [qc_entry]
           in (Inr PyNone, self1, to_csv qc_df fname (Some qc_headers) [CHR 0x09] w1))"

section \<open>QualityControl: the sequence cycle profile\<close>

text \<open>
  A \<^verbatim>\<open>defaultdict(int)\<close> from positions to counts: a key that is missing reads as 0.
  (Reading a missing key also stores the 0; no later read is changed by that.)
\<close>

definition dd_get :: "(nat, int) dict \<Rightarrow> nat \<Rightarrow> int" where
  "dd_get d k = (case map_of d k of None \<Rightarrow> 0 | Some v \<Rightarrow> v)"

definition dd_incr :: "(nat, int) dict \<Rightarrow> nat \<Rightarrow> (nat, int) dict" where
  "dd_incr d k = dict_set k (dd_get d k + 1) d"

text \<open>
  The inner loop of lines 174-178, over the positions \<^verbatim>\<open>range(seq_len)\<close>.  The local dict
  \<^verbatim>\<open>num_reads\<close> of the method is \<open>num_reads_at\<close> here.
\<close>

fun scan_seq :: "string \<Rightarrow> nat list \<Rightarrow> (nat, int) dict \<times> (nat, int) dict
                   \<Rightarrow> (nat, int) dict \<times> (nat, int) dict" where
  "scan_seq seq [] (num_n_bases, num_reads_at) = (num_n_bases, num_reads_at)"
| "scan_seq seq (n # ns) (num_n_bases, num_reads_at) =
     scan_seq seq ns
       (if seq ! n = CHR ''N'' then dd_incr num_n_bases n else num_n_bases,
        dd_incr num_reads_at n)"

text \<open>
  The outer loop of lines 167-179.  The flag of the result tells whether the stream was
  read to its end (\<open>True\<close>) or left by the \<^verbatim>\<open>break\<close> of line 171 (\<open>False\<close>): the test of
  line 170 is made once the next entry has been read.
\<close>

fun scan_entries :: "fastq_entry list \<Rightarrow> int option
                       \<Rightarrow> (nat, int) dict \<times> (nat, int) dict \<times> int
                       \<Rightarrow> ((nat, int) dict \<times> (nat, int) dict \<times> int) \<times> bool" where
  "scan_entries [] first_n_seqs st = (st, True)"
| "scan_entries (entry # rest) first_n_seqs (num_n_bases, num_reads_at, num_entries) =
     (if (case first_n_seqs of None \<Rightarrow> False | Some k \<Rightarrow> num_entries \<ge> k)
      then ((num_n_bases, num_reads_at, num_entries), False)
      else
        (case entry of (header1, seq, header2, qual) \<Rightarrow>
          (case scan_seq seq [0 ..< length seq] (num_n_bases, num_reads_at) of
             (nb, nr) \<Rightarrow> scan_entries rest first_n_seqs (nb, nr, num_entries + 1))))"

text \<open>\<^verbatim>\<open>max\<close> of a list: \<open>ValueError\<close> on the empty list.\<close>

fun py_max :: "nat list \<Rightarrow> error + nat" where
  "py_max [] = Inl (ValueError ''max() arg is an empty sequence'')"
| "py_max (x # xs) = Inr (fold max xs x)"

text \<open>
  The loop of lines 182-184.  \<^verbatim>\<open>float(a) / b\<close> is modelled by the exact quotient of
  rationals (the rounding of floating point is not modelled); a zero divisor raises
  \<open>ZeroDivisionError\<close>.
\<close>

fun percent_loop :: "nat list \<Rightarrow> (nat, int) dict \<Rightarrow> (nat, int) dict \<Rightarrow> rat list
                       \<Rightarrow> error + rat list" where
  "percent_loop [] num_n_bases num_reads_at percent_n = Inr percent_n"
| "percent_loop (base_pos # ps) num_n_bases num_reads_at percent_n =
     (if dd_get num_reads_at base_pos = 0 then Inl ZeroDivisionError
      else percent_loop ps num_n_bases num_reads_at
             (percent_n @ [of_int (dd_get num_n_bases base_pos)
                            / of_int (dd_get num_reads_at base_pos)]))"

text \<open>\<^verbatim>\<open>get_seq_cycle_profile\<close> (lines 150-185).\<close>

definition get_seq_cycle_profile ::
    "QualityControl \<Rightarrow> string \<Rightarrow> int option \<Rightarrow> world \<Rightarrow> (rat list, QualityControl) outcome" where
  "get_seq_cycle_profile self fastq_filename first_n_seqs w =
     (case read_open_fastq fastq_filename w of
        Inl e \<Rightarrow> (Inl e, self, w)
      | Inr fastq_file \<Rightarrow>
         (case read_fastq fastq_file of (fastq_entries, stream_end) \<Rightarrow>
          let w1 = w\<lparr>stdout := stdout w
                      @ [''Computing sequence cycle profile for: '' @ fastq_filename]\<rparr>;
              w2 = (case first_n_seqs of
                      None \<Rightarrow> w1
                    | Some k \<Rightarrow> w1\<lparr>stdout := stdout w1
                        @ [''Looking at first '' @ show_int k @ '' sequences only'']\<rparr>)
          in (case scan_entries fastq_entries first_n_seqs ([], [], 0) of
                ((num_n_bases, num_reads_at, num_entries), exhausted) \<Rightarrow>
                  (case (if exhausted then stream_end else None) of
                     Some e \<Rightarrow> (Inl e, self, w2)
                   | None \<Rightarrow>
                      (case py_max (dict_keys num_reads_at) of
                         Inl e \<Rightarrow> (Inl e, self, w2)
                       | Inr m \<Rightarrow>
                          (case percent_loop [0 ..< m] num_n_bases num_reads_at [] of
                             Inl e \<Rightarrow> (Inl e, self, w2)
                           | Inr percent_n \<Rightarrow> (Inr percent_n, self, w2)))))))"

section \<open>QCStats: the table over all samples\<close>

text \<open>
  What \<^verbatim>\<open>QCStats\<close> reads of each sample it is given: the attributes \<^verbatim>\<open>label\<close>,
  \<^verbatim>\<open>qc_header\<close> and \<^verbatim>\<open>qc_results\<close>.
\<close>

record sample_qc =
  sample_label :: string
  sample_qc_header :: "string list"
  sample_qc_results :: "(string, pyval) dict"

text \<open>
  \<^verbatim>\<open>self.qc_stats\<close> is a Python list of dicts from \<^verbatim>\<open>__init__\<close> on, and a data frame
  once line 224 has assigned one.
\<close>

datatype stats = StatList "(string, pyval) dict list" | Frame dataframe

record QCStats =
  samples :: "sample_qc list"
  qc_stats :: stats

definition QCStats_init :: "sample_qc list \<Rightarrow> QCStats" where
  "QCStats_init ss = \<lparr> samples = ss, qc_stats = StatList [] \<rparr>"

text \<open>
  \<^verbatim>\<open>list.append\<close> on \<^verbatim>\<open>self.qc_stats\<close> (a frame's \<^verbatim>\<open>append\<close> returns a new frame and
  leaves the frame as it is), and the write through the local \<^verbatim>\<open>qc_entry\<close> into the
  dict it names, which is the dict appended last.
\<close>

fun stats_append :: "stats \<Rightarrow> (string, pyval) dict \<Rightarrow> stats" where
  "stats_append (StatList ds) d = StatList (ds @ [d])"
| "stats_append (Frame df) d = Frame df"

fun stats_set_last :: "stats \<Rightarrow> (string, pyval) dict \<Rightarrow> stats" where
  "stats_set_last (StatList ds) d = StatList (butlast ds @ [d])"
| "stats_set_last (Frame df) d = Frame df"

text \<open>
  The loop of lines 218-223.  The local \<^verbatim>\<open>qc_entry\<close> is \<open>None\<close> while it is unbound.
  Line 220 stores into \<^verbatim>\<open>qc_entry\<close> before line 222 has bound it: on an unbound local
  that is \<open>UnboundLocalError\<close>.
\<close>

fun compile_loop :: "string \<Rightarrow> sample_qc list \<Rightarrow> (string, pyval) dict option \<Rightarrow> stats
                       \<Rightarrow> (error + unit) \<times> stats" where
  "compile_loop sample_header [] qc_entry st = (Inr (), st)"
| "compile_loop sample_header (s # rest) qc_entry st =
     (case qc_entry of
        None \<Rightarrow> (Inl (UnboundLocalError ''qc_entry''), st)
      | Some d \<Rightarrow>
          let st1 = stats_set_last st (dict_set sample_header (PyStr (sample_label s)) d);
              qc_entry1 = sample_qc_results s;
              st2 = stats_append st1 qc_entry1
          in compile_loop sample_header rest (Some qc_entry1) st2)"

text \<open>
  \<^verbatim>\<open>QCStats.compile_qc\<close> (lines 206-225); \<open>sample_header\<close> defaults to \<^verbatim>\<open>"sample"\<close>.
  Line 217 computes a local \<^verbatim>\<open>qc_header\<close> that nothing reads.  Line 224 reads the name
  \<^verbatim>\<open>qc_stats\<close>, which is neither a local nor a name of the module: \<open>NameError\<close>.
\<close>

definition compile_qc :: "QCStats \<Rightarrow> sample_qc list \<Rightarrow> string \<Rightarrow> world
                            \<Rightarrow> (stats, QCStats) outcome" where
  "compile_qc self ss sample_header w =
     (if length ss = 0
      then (Inl (SystemExit 1), self,
            w\<lparr>stdout := stdout w @ [''Error: No samples given to compile QC from!'']\<rparr>)
      else
        (case compile_loop sample_header ss None (qc_stats self) of
           (Inl e, st) \<Rightarrow> (Inl e, self\<lparr>qc_stats := st\<rparr>, w)
         | (Inr u, st) \<Rightarrow> (Inl (NameError ''qc_stats''), self\<lparr>qc_stats := st\<rparr>, w)))"

text \<open>\<^verbatim>\<open>QCStats.to_csv\<close> (lines 228-231): a Python list has no \<^verbatim>\<open>to_csv\<close>.\<close>

definition QCStats_to_csv :: "QCStats \<Rightarrow> string \<Rightarrow> world \<Rightarrow> (pyval, QCStats) outcome" where
  "QCStats_to_csv self output_filename w =
     (case qc_stats self of
        StatList ds \<Rightarrow> (Inl (AttributeError ''to_csv''), self, w)
      | Frame df \<Rightarrow> (Inr PyNone, self, to_csv df output_filename None [CHR 0x09] w))"

text \<open>\<^verbatim>\<open>QCStats.output_qc\<close> (lines 197-203).\<close>

definition QCStats_output_qc :: "QCStats \<Rightarrow> string \<Rightarrow> world \<Rightarrow> (pyval, QCStats) outcome" where
  "QCStats_output_qc self output_filename w =
     (let w1 = w\<lparr>stdout := stdout w @ [''Outputting QC information for all samples...'']\<rparr>
      in case compile_qc self (samples self) ''sample'' w1 of
           (Inl e, self1, w2) \<Rightarrow> (Inl e, self1, w2)
         | (Inr t, self1, w2) \<Rightarrow> QCStats_to_csv self1 output_filename w2)"

section \<open>The objects a run can reach\<close>

text \<open>
  A \<^verbatim>\<open>QualityControl\<close> object is made by \<^verbatim>\<open>__init__\<close> and changed by its methods only.
\<close>

inductive reachable :: "QualityControl \<Rightarrow> bool" where
  r_init: "QualityControl_init s p = Inr self \<Longrightarrow> reachable self"
| r_get_num_reads: "reachable self \<Longrightarrow> get_num_reads self w = (r, self', w') \<Longrightarrow> reachable self'"
| r_get_num_mapped: "reachable self \<Longrightarrow> get_num_mapped self w = (r, self', w') \<Longrightarrow> reachable self'"
| r_get_num_ribo: "reachable self \<Longrightarrow> get_num_ribo self c w = (r, self', w') \<Longrightarrow> reachable self'"
| r_get_qc: "reachable self \<Longrightarrow> get_qc self w = (rq, self', w') \<Longrightarrow> reachable self'"
| r_compute_qc: "reachable self \<Longrightarrow> compute_qc self w = (rq, self', w') \<Longrightarrow> reachable self'"
| r_output_qc: "reachable self \<Longrightarrow> output_qc self w = (ro, self', w') \<Longrightarrow> reachable self'"
| r_get_seq_cycle_profile:
    "reachable self \<Longrightarrow> get_seq_cycle_profile self f k w = (rp, self', w') \<Longrightarrow> reachable self'"

section \<open>A small run\<close>

text \<open>
  One sample \<open>s1\<close>: a read file of two entries, and an alignment file of four records
  for the read identifiers A, A, B, C, three of them on \<open>chrRibo\<close>.
\<close>

definition ex_sample :: sample where
  "ex_sample = \<lparr> label = ''s1'', reads_filename = ''s1.fastq'', bam_filename = ''s1.bam'' \<rparr>"

definition ex_pipeline :: pipeline where
  "ex_pipeline = \<lparr> settings_info = [], pipeline_outdirs = [(''qc'', ''out/qc'')] \<rparr>"

definition ex_bam :: bam where
  "ex_bam = \<lparr> references = [''chr1'', ''chrRibo''],
              alignments =
                [\<lparr> qname = ''A'', rname = ''chrRibo'', pos = 5, aend = 55 \<rparr>,
                 \<lparr> qname = ''A'', rname = ''chrRibo'', pos = 200, aend = 250 \<rparr>,
                 \<lparr> qname = ''B'', rname = ''chrRibo'', pos = 7, aend = 57 \<rparr>,
                 \<lparr> qname = ''C'', rname = ''chr1'', pos = 90, aend = 140 \<rparr>] \<rparr>"

definition ex_fastq :: "string list" where
  "ex_fastq = [''@r1'', ''ACGT'', ''+'', ''IIII'', ''@r2'', ''NCGT'', ''+'', ''IIII'']"

definition ex_world :: world where
  "ex_world = \<lparr> files = [''s1.fastq'' \<mapsto> TextFile ex_fastq, ''s1.bam'' \<mapsto> BamFile ex_bam],
                dirs = {}, stdout = [] \<rparr>"

definition ex_qc :: QualityControl where
  "ex_qc = \<lparr> qc_pipeline = ex_pipeline, qc_sample = ex_sample, qc_settings_info = [],
             qc_filename = None, qc_header = [], qc_results = [],
             qc_outdir = ''out/qc'', num_reads = None, num_mapped = None,
             num_ribo = None, num_mito = None, num_intronic = None,
             num_intergenic = None \<rparr>"

text \<open>The same world once the QC file of \<open>s1\<close> has been written by an earlier run.\<close>

definition ex_world_done :: world where
  "ex_world_done =
     ex_world\<lparr>files := (files ex_world)(''out/qc/s1/s1.qc.txt'' \<mapsto>
                 TextFile [''num_reads'' @ [CHR 0x09] @ ''num_mapped'' @ [CHR 0x09] @ ''num_ribo'',
                           ''2'' @ [CHR 0x09] @ ''3'' @ [CHR 0x09] @ ''3''])\<rparr>"

text \<open>
  A read file of ten entries, each a read of one base; three of the reads have the
  unresolvable base \<open>N\<close> at position 0.
\<close>

definition ex_profile_fastq :: "string list" where
  "ex_profile_fastq =
     [''@r1'', ''N'', ''+'', ''I'',
      ''@r2'', ''N'', ''+'', ''I'',
      ''@r3'', ''N'', ''+'', ''I'',
      ''@r4'', ''A'', ''+'', ''I'',
      ''@r5'', ''C'', ''+'', ''I'',
      ''@r6'', ''G'', ''+'', ''I'',
      ''@r7'', ''T'', ''+'', ''I'',
      ''@r8'', ''A'', ''+'', ''I'',
      ''@r9'', ''C'', ''+'', ''I'',
      ''@r10'', ''G'', ''+'', ''I'']"

definition ex_profile_world :: world where
  "ex_profile_world =
     \<lparr> files = [''p.fastq'' \<mapsto> TextFile ex_profile_fastq], dirs = {}, stdout = [] \<rparr>"

text \<open>One computed sample, as \<^verbatim>\<open>QCStats\<close> is given it.\<close>

definition ex_sample_qc :: sample_qc where
  "ex_sample_qc =
     \<lparr> sample_label = ''s1'',
       sample_qc_header = [''num_reads'', ''num_mapped'', ''num_ribo''],
       sample_qc_results = [(''num_reads'', PyInt 2), (''num_mapped'', PyInt 3),
                            (''num_ribo'', PyInt 3)] \<rparr>"

section \<open>Facts about the loops\<close>

lemma count_entries_length: "count_entries xs n = n + int (length xs)"
  by (induction xs arbitrary: n) simp_all

lemma collect_read_ids_keys:
  "set (dict_keys (collect_read_ids rs d)) = set (dict_keys d) \<union> qname ` set rs"
  by (induction rs arbitrary: d) (auto simp: dict_set_def dict_keys_def dom_update)

lemma collect_read_ids_distinct:
  "distinct (dict_keys d) \<Longrightarrow> distinct (dict_keys (collect_read_ids rs d))"
  by (induction rs arbitrary: d) (simp_all add: dict_set_def dict_keys_def distinct_update)

lemma collect_read_ids_card:
  "length (dict_keys (collect_read_ids rs [])) = card (qname ` set rs)"
proof -
  have d: "distinct (dict_keys (collect_read_ids rs []))"
    by (rule collect_read_ids_distinct) (simp add: dict_keys_def)
  have k: "set (dict_keys (collect_read_ids rs [])) = qname ` set rs"
    by (simp add: collect_read_ids_keys) (simp add: dict_keys_def)
  from distinct_card [OF d] k show ?thesis by simp
qed

lemma card_qnames_le: "card (qname ` set rs) \<le> length rs"
  by (metis card_image_le card_length le_trans List.finite_set)

lemma card_qnames_eq: "card (qname ` set rs) = length rs \<longleftrightarrow> distinct (map qname rs)"
  by (metis card_distinct distinct_card length_map list.set_map)

lemma read_fastq_well_formed:
  "length ls mod 4 = 0 \<Longrightarrow> read_fastq ls = (es, e) \<Longrightarrow> e = None \<and> length es = length ls div 4"
proof (induction ls arbitrary: es e rule: read_fastq.induct)
  case 1
  then show ?case by simp
next
  case (2 h1 s h2 q rest)
  obtain es' e' where r: "read_fastq rest = (es', e')" by (cases "read_fastq rest")
  from "2.prems"(1) have m: "length rest mod 4 = 0" by simp
  from "2.IH" [OF m r] have "e' = None" and "length es' = length rest div 4" by simp_all
  with "2.prems"(2) r show ?case by auto
qed simp_all

lemma get_num_ribo_frame: "snd (get_num_ribo self c w) = (self, w)"
  by (simp add: get_num_ribo_def split: sum.splits)

lemma ex_Samfile: "Samfile (bam_filename (qc_sample ex_qc)) ex_world = Inr ex_bam"
  by (simp add: Samfile_def ex_qc_def ex_sample_def ex_world_def)

lemma ex_reads_file: "files ex_world (reads_filename (qc_sample ex_qc)) = Some (TextFile ex_fastq)"
  by (simp add: ex_world_def ex_qc_def ex_sample_def)

lemma ex_get_num_reads: "get_num_reads ex_qc ex_world = (Inr 2, ex_qc\<lparr>num_reads := Some 2\<rparr>, ex_world)"
  using ex_reads_file
  by (simp add: get_num_reads_def get_fastq_entries_def read_open_fastq_def ex_fastq_def)

lemma ex_get_num_mapped:
  "get_num_mapped ex_qc ex_world = (Inr 3, ex_qc\<lparr>num_mapped := Some 3\<rparr>, ex_world)"
  using ex_Samfile
  by (simp add: get_num_mapped_def ex_bam_def dict_set_def dict_keys_def)

lemma ex_get_num_ribo: "get_num_ribo ex_qc ''chrRibo'' ex_world = (Inr 3, ex_qc, ex_world)"
  using ex_Samfile
  by (simp add: get_num_ribo_def fetch_def in_region_def ex_bam_def)

section \<open>count_mapped\<close>

text \<open>
  C4.  On every alignment file, \<^verbatim>\<open>get_num_mapped\<close> returns the number of distinct read
  identifiers of its records (compared as the strings they are) and stores it in
  \<open>num_mapped\<close>.  That number is at most the number of records, and equals it exactly
  when no two records share a read identifier.  On the file with the read identifiers
  A, A, B, C the count is 3.
\<close>

theorem get_num_mapped_unique_ids:
  assumes "Samfile (bam_filename (qc_sample self)) w = Inr b"
  shows "get_num_mapped self w =
           (Inr (int (card (qname ` set (alignments b)))),
            self\<lparr>num_mapped := Some (int (card (qname ` set (alignments b))))\<rparr>, w)
         \<and> card (qname ` set (alignments b)) \<le> length (alignments b)
         \<and> (card (qname ` set (alignments b)) = length (alignments b)
              \<longleftrightarrow> distinct (map qname (alignments b)))"
  using assms
  by (simp add: get_num_mapped_def collect_read_ids_card card_qnames_le card_qnames_eq Let_def)

theorem get_num_mapped_unique_ids_witness:
  "Samfile (bam_filename (qc_sample ex_qc)) ex_world = Inr ex_bam
   \<and> map qname (alignments ex_bam) = [''A'', ''A'', ''B'', ''C'']
   \<and> fst (get_num_mapped ex_qc ex_world) = Inr 3"
proof -
  have c: "card (qname ` set (alignments ex_bam)) = 3"
    by (simp add: ex_bam_def)
  show ?thesis
    using get_num_mapped_unique_ids [OF ex_Samfile] c
    by (simp add: ex_Samfile) (simp add: ex_bam_def)
qed

section \<open>count_reads\<close>

text \<open>
  C5.  On a read file whose lines split into 4-line groups, \<^verbatim>\<open>get_num_reads\<close> returns the
  number of groups and stores it in \<open>num_reads\<close>; on the empty file it returns 0.
\<close>

theorem get_num_reads_counts_groups:
  assumes "files w (reads_filename (qc_sample self)) = Some (TextFile ls)"
    and "length ls mod 4 = 0"
  shows "get_num_reads self w =
           (Inr (int (length ls div 4)), self\<lparr>num_reads := Some (int (length ls div 4))\<rparr>, w)
         \<and> (ls = [] \<longrightarrow> fst (get_num_reads self w) = Inr 0)"
proof -
  obtain es e where r: "read_fastq ls = (es, e)" by (cases "read_fastq ls")
  from read_fastq_well_formed [OF assms(2) r] have "e = None" and "length es = length ls div 4"
    by simp_all
  with assms(1) r have
    "get_num_reads self w =
       (Inr (int (length ls div 4)), self\<lparr>num_reads := Some (int (length ls div 4))\<rparr>, w)"
    by (simp add: get_num_reads_def get_fastq_entries_def read_open_fastq_def
        count_entries_length Let_def)
  then show ?thesis by simp
qed

theorem get_num_reads_counts_groups_witness:
  "files ex_world (reads_filename (qc_sample ex_qc)) = Some (TextFile ex_fastq)
   \<and> length ex_fastq mod 4 = 0
   \<and> fst (get_num_reads ex_qc ex_world) = Inr 2"
proof -
  have l: "length ex_fastq mod 4 = 0" by (simp add: ex_fastq_def)
  have d: "length ex_fastq div 4 = 2" by (simp add: ex_fastq_def)
  from get_num_reads_counts_groups [OF ex_reads_file l] ex_reads_file l d
  show ?thesis by simp
qed

section \<open>count_region_reads\<close>

text \<open>
  C6.  For a region name that the alignment file lists among its references,
  \<^verbatim>\<open>get_num_ribo\<close> returns the number of records whose reference name is the region
  name, over the whole contig; records are counted one by one, so records that share
  a read identifier each count.  In \<open>ex_bam\<close> the three records on \<open>chrRibo\<close> carry
  the read identifiers A, A, B and the count is 3.
\<close>

theorem get_num_ribo_counts_records:
  assumes "Samfile (bam_filename (qc_sample self)) w = Inr b"
    and "region_name \<in> set (references b)"
  shows "get_num_ribo self region_name w =
           (Inr (int (length (filter (\<lambda>r. rname r = region_name) (alignments b)))), self, w)"
  using assms
  by (simp add: get_num_ribo_def fetch_def in_region_def count_entries_length)

theorem get_num_ribo_counts_records_witness:
  "Samfile (bam_filename (qc_sample ex_qc)) ex_world = Inr ex_bam
   \<and> ''chrRibo'' \<in> set (references ex_bam)
   \<and> map qname (filter (\<lambda>r. rname r = ''chrRibo'') (alignments ex_bam)) = [''A'', ''A'', ''B'']
   \<and> get_num_ribo ex_qc ''chrRibo'' ex_world = (Inr 3, ex_qc, ex_world)"
proof -
  have m: "''chrRibo'' \<in> set (references ex_bam)" by (simp add: ex_bam_def)
  have f: "map qname (filter (\<lambda>r. rname r = ''chrRibo'') (alignments ex_bam)) = [''A'', ''A'', ''B'']"
    by (simp add: ex_bam_def)
  have l: "length (filter (\<lambda>r. rname r = ''chrRibo'') (alignments ex_bam)) = 3"
    by (simp add: ex_bam_def)
  from get_num_ribo_counts_records [OF ex_Samfile m] ex_Samfile m f l show ?thesis by simp
qed

text \<open>
  C9.  \<^verbatim>\<open>get_num_ribo\<close> leaves the world, and so the alignment file, as it found it, and
  a second call on what the first call left gives the result of the first.
\<close>

theorem get_num_ribo_idempotent:
  "snd (snd (get_num_ribo self c w)) = w
   \<and> get_num_ribo (fst (snd (get_num_ribo self c w))) c (snd (snd (get_num_ribo self c w)))
       = get_num_ribo self c w"
  using get_num_ribo_frame [of self c w] by (simp add: prod_eq_iff)

text \<open>
  C10.  \<^verbatim>\<open>get_num_ribo\<close> hands its count back and leaves the object as it was, the field
  \<open>num_ribo\<close> included; \<^verbatim>\<open>get_num_reads\<close> and \<^verbatim>\<open>get_num_mapped\<close>, when they return,
  have stored what they return in \<open>num_reads\<close> and \<open>num_mapped\<close>.
\<close>

theorem get_num_ribo_keeps_object:
  "fst (snd (get_num_ribo self c w)) = self
   \<and> num_ribo (fst (snd (get_num_ribo self c w))) = num_ribo self
   \<and> (get_num_reads self w = (Inr n, self', w') \<longrightarrow> self' = self\<lparr>num_reads := Some n\<rparr>)
   \<and> (get_num_mapped self w = (Inr m, self'', w'') \<longrightarrow> self'' = self\<lparr>num_mapped := Some m\<rparr>)"
  using get_num_ribo_frame [of self c w]
  by (auto simp: prod_eq_iff get_num_reads_def get_num_mapped_def Let_def
      split: sum.splits option.splits prod.splits)

theorem get_num_ribo_keeps_object_witness:
  "get_num_reads ex_qc ex_world = (Inr 2, ex_qc\<lparr>num_reads := Some 2\<rparr>, ex_world)
   \<and> get_num_mapped ex_qc ex_world = (Inr 3, ex_qc\<lparr>num_mapped := Some 3\<rparr>, ex_world)
   \<and> fst (get_num_ribo ex_qc ''chrRibo'' ex_world) = Inr 3
   \<and> num_ribo (fst (snd (get_num_ribo ex_qc ''chrRibo'' ex_world))) = None
   \<and> num_reads (ex_qc\<lparr>num_reads := Some 2\<rparr>) = Some 2
   \<and> num_mapped (ex_qc\<lparr>num_mapped := Some 3\<rparr>) = Some 3"
proof -
  have n: "num_ribo ex_qc = None" by (simp add: ex_qc_def)
  from get_num_ribo_keeps_object
         [where self = ex_qc and c = "''chrRibo''" and w = ex_world
            and n = 2 and self' = "ex_qc\<lparr>num_reads := Some 2\<rparr>" and w' = ex_world
            and m = 3 and self'' = "ex_qc\<lparr>num_mapped := Some 3\<rparr>" and w'' = ex_world]
       ex_get_num_reads ex_get_num_mapped ex_get_num_ribo n
  show ?thesis by simp
qed

section \<open>compute\<close>

lemma get_num_reads_results:
  "get_num_reads self w = (r, self', w') \<Longrightarrow>
   qc_results self' = qc_results self \<and> qc_header self' = qc_header self"
  by (auto simp: get_num_reads_def Let_def split: sum.splits option.splits prod.splits)

lemma get_num_mapped_results:
  "get_num_mapped self w = (r, self', w') \<Longrightarrow>
   qc_results self' = qc_results self \<and> qc_header self' = qc_header self"
  by (auto simp: get_num_mapped_def Let_def split: sum.splits)

lemma get_num_ribo_results:
  "get_num_ribo self c w = (r, self', w') \<Longrightarrow>
   qc_results self' = qc_results self \<and> qc_header self' = qc_header self"
  using get_num_ribo_frame [of self c w] by simp

lemma output_qc_results:
  "output_qc self w = (r, self', w') \<Longrightarrow> qc_results self' = qc_results self"
  by (auto simp: output_qc_def Let_def split: if_splits)

lemma get_seq_cycle_profile_results:
  "get_seq_cycle_profile self f k w = (r, self', w') \<Longrightarrow> self' = self"
  by (auto simp: get_seq_cycle_profile_def Let_def split: sum.splits option.splits prod.splits if_splits)

lemma compute_qc_results:
  assumes "compute_qc self w = (r, self', w')"
  shows "(case r of
            Inl e \<Rightarrow> qc_results self' = qc_results self
          | Inr m \<Rightarrow> m = qc_results self'
               \<and> qc_header self' = [''num_reads'', ''num_mapped'', ''num_ribo'']
               \<and> (\<exists>nr nm nb. qc_results self' =
                     dict_set ''num_ribo'' (PyInt nb)
                       (dict_set ''num_mapped'' (PyInt nm)
                         (dict_set ''num_reads'' (PyInt nr) (qc_results self)))))"
proof -
  obtain r1 s1 w1 where g1: "get_num_reads self w = (r1, s1, w1)"
    by (cases "get_num_reads self w")
  note q1 = get_num_reads_results [OF g1]
  show ?thesis
  proof (cases r1)
    case (Inl e)
    with assms g1 q1 show ?thesis by (auto simp: compute_qc_def)
  next
    case nr: (Inr nr)
    obtain r2 s2 w2 where g2: "get_num_mapped (s1\<lparr>num_reads := Some nr\<rparr>) w1 = (r2, s2, w2)"
      by (cases "get_num_mapped (s1\<lparr>num_reads := Some nr\<rparr>) w1")
    note q2 = get_num_mapped_results [OF g2]
    show ?thesis
    proof (cases r2)
      case (Inl e)
      with assms g1 g2 q1 q2 nr show ?thesis by (auto simp: compute_qc_def)
    next
      case nm: (Inr nm)
      obtain r3 s3 w3 where
        g3: "get_num_ribo (s2\<lparr>num_mapped := Some nm\<rparr>) ''chrRibo'' w2 = (r3, s3, w3)"
        by (cases "get_num_ribo (s2\<lparr>num_mapped := Some nm\<rparr>) ''chrRibo'' w2")
      note q3 = get_num_ribo_results [OF g3]
      show ?thesis
      proof (cases r3)
        case (Inl e)
        with assms g1 g2 g3 q1 q2 q3 nr nm show ?thesis by (auto simp: compute_qc_def)
      next
        case nb: (Inr nb)
        with assms g1 g2 g3 q1 q2 q3 nr nm show ?thesis
          by (auto simp: compute_qc_def Let_def) blast
      qed
    qed
  qed
qed

lemma dict_set_keys: "set (dict_keys (dict_set k v d)) = insert k (set (dict_keys d))"
  by (simp add: dict_set_def dict_keys_def dom_update)

lemma dict_set_distinct: "distinct (dict_keys d) \<Longrightarrow> distinct (dict_keys (dict_set k v d))"
  by (simp add: dict_set_def dict_keys_def distinct_update)

lemma reachable_keys:
  "reachable self \<Longrightarrow>
   set (dict_keys (qc_results self)) \<subseteq> {''num_reads'', ''num_mapped'', ''num_ribo''}
   \<and> distinct (dict_keys (qc_results self))"
proof (induction rule: reachable.induct)
  case (r_init s p self)
  then show ?case
    by (auto simp: QualityControl_init_def dict_keys_def split: option.splits)
next
  case (r_get_num_reads self w r self' w')
  then show ?case using get_num_reads_results by simp
next
  case (r_get_num_mapped self w r self' w')
  then show ?case using get_num_mapped_results by simp
next
  case (r_get_num_ribo self c w r self' w')
  then show ?case using get_num_ribo_results by simp
next
  case (r_get_qc self w rq self' w')
  then show ?case by (simp add: get_qc_def)
next
  case (r_compute_qc self w rq self' w')
  from compute_qc_results [OF r_compute_qc.hyps(2)] r_compute_qc.IH show ?case
    by (cases rq) (auto simp: dict_set_keys dict_set_distinct)
next
  case (r_output_qc self w ro self' w')
  then show ?case using output_qc_results by simp
next
  case (r_get_seq_cycle_profile self f k w rp self' w')
  from get_seq_cycle_profile_results [OF r_get_seq_cycle_profile.hyps(2)]
    r_get_seq_cycle_profile.IH
  show ?case by simp
qed

lemma ex_init: "QualityControl_init ex_sample ex_pipeline = Inr ex_qc"
  by (simp add: QualityControl_init_def ex_pipeline_def ex_qc_def)

lemma ex_compute_qc:
  "fst (compute_qc ex_qc ex_world)
     = Inr [(''num_reads'', PyInt 2), (''num_mapped'', PyInt 3), (''num_ribo'', PyInt 3)]"
  by (simp add: compute_qc_def get_num_reads_def get_fastq_entries_def read_open_fastq_def
      get_num_mapped_def get_num_ribo_def Samfile_def fetch_def in_region_def
      dict_set_def dict_keys_def ex_qc_def ex_sample_def ex_world_def ex_fastq_def
      ex_bam_def Let_def)

text \<open>
  C8.  When \<^verbatim>\<open>compute_qc\<close> returns on an object that \<^verbatim>\<open>__init__\<close> made and only the
  methods of the class have changed, the header is \<^verbatim>\<open>["num_reads", "num_mapped",
  "num_ribo"]\<close>, the mapping returned is the object's \<open>qc_results\<close>, and the keys of the
  mapping are the fields of the header, each once.
\<close>

theorem compute_qc_header_matches_results:
  assumes "reachable self" and "compute_qc self w = (Inr m, self', w')"
  shows "qc_header self' = [''num_reads'', ''num_mapped'', ''num_ribo'']
         \<and> m = qc_results self'
         \<and> set (dict_keys m) = set (qc_header self')
         \<and> distinct (dict_keys m) \<and> distinct (qc_header self')"
proof -
  from compute_qc_results [OF assms(2)]
  obtain nr nm nb where m: "m = qc_results self'"
    and h: "qc_header self' = [''num_reads'', ''num_mapped'', ''num_ribo'']"
    and q: "qc_results self' =
              dict_set ''num_ribo'' (PyInt nb)
                (dict_set ''num_mapped'' (PyInt nm)
                  (dict_set ''num_reads'' (PyInt nr) (qc_results self)))"
    by auto
  from reachable_keys [OF assms(1)]
  have k: "set (dict_keys (qc_results self)) \<subseteq> {''num_reads'', ''num_mapped'', ''num_ribo''}"
    and d: "distinct (dict_keys (qc_results self))" by simp_all
  from k have "set (dict_keys (qc_results self')) = {''num_reads'', ''num_mapped'', ''num_ribo''}"
    unfolding q dict_set_keys by auto
  moreover from d have "distinct (dict_keys (qc_results self'))"
    unfolding q by (intro dict_set_distinct)
  ultimately show ?thesis using m h by auto
qed

theorem compute_qc_header_matches_results_witness:
  "reachable ex_qc
   \<and> fst (compute_qc ex_qc ex_world)
       = Inr [(''num_reads'', PyInt 2), (''num_mapped'', PyInt 3), (''num_ribo'', PyInt 3)]
   \<and> qc_header (fst (snd (compute_qc ex_qc ex_world))) = [''num_reads'', ''num_mapped'', ''num_ribo'']
   \<and> qc_results (fst (snd (compute_qc ex_qc ex_world)))
       = [(''num_reads'', PyInt 2), (''num_mapped'', PyInt 3), (''num_ribo'', PyInt 3)]"
proof -
  have r: "reachable ex_qc" by (rule reachable.r_init [OF ex_init])
  have c: "compute_qc ex_qc ex_world
             = (Inr [(''num_reads'', PyInt 2), (''num_mapped'', PyInt 3), (''num_ribo'', PyInt 3)],
                fst (snd (compute_qc ex_qc ex_world)), snd (snd (compute_qc ex_qc ex_world)))"
    using ex_compute_qc by (simp add: prod_eq_iff)
  from compute_qc_header_matches_results [OF r c] r ex_compute_qc show ?thesis by simp
qed

section \<open>aggregate\<close>

lemma compile_loop_unbound:
  "ss \<noteq> [] \<Longrightarrow> compile_loop h ss None st = (Inl (UnboundLocalError ''qc_entry''), st)"
  by (cases ss) simp_all

lemma compile_qc_nonempty:
  "ss \<noteq> [] \<Longrightarrow>
   compile_qc self ss h w = (Inl (UnboundLocalError ''qc_entry''), self, w)"
  by (simp add: compile_qc_def compile_loop_unbound)

lemma compile_qc_never_returns: "\<exists>e. fst (compile_qc self ss h w) = Inl e"
  by (cases "ss = []") (simp_all add: compile_qc_nonempty, simp add: compile_qc_def)

text \<open>
  C1.  The claim asks for a table with one row per sample, in input order.  On the
  one-sample input \<open>[ex_sample_qc]\<close> \<^verbatim>\<open>compile_qc\<close> builds no table: the first pass of its
  loop raises \<open>UnboundLocalError\<close> at line 220, \<open>qc_stats\<close> stays the empty list, and
  \<^verbatim>\<open>QCStats.output_qc\<close> fails the same way.  (By \<open>compile_qc_nonempty\<close> the same holds
  for every non-empty input.)
\<close>

theorem compile_qc_one_sample_fails:
  "compile_qc (QCStats_init [ex_sample_qc]) [ex_sample_qc] ''sample'' ex_world
     = (Inl (UnboundLocalError ''qc_entry''), QCStats_init [ex_sample_qc], ex_world)
   \<and> qc_stats (QCStats_init [ex_sample_qc]) = StatList []
   \<and> fst (QCStats_output_qc (QCStats_init [ex_sample_qc]) ''qc.txt'' ex_world)
       = Inl (UnboundLocalError ''qc_entry'')"
  by (simp add: compile_qc_def QCStats_output_qc_def QCStats_init_def)

text \<open>
  C7.  On the empty sample sequence \<^verbatim>\<open>compile_qc\<close> fails: it prints its error line and
  leaves through \<^verbatim>\<open>sys.exit(1)\<close>, the failure the specification calls EmptyInputError.
  \<^verbatim>\<open>QCStats.output_qc\<close> on an object with no samples fails the same way before it
  writes, so the files are what they were.
\<close>

theorem compile_qc_empty_exits:
  "compile_qc self [] sample_header w
     = (Inl (SystemExit 1), self,
        w\<lparr>stdout := stdout w @ [''Error: No samples given to compile QC from!'']\<rparr>)
   \<and> fst (QCStats_output_qc (QCStats_init []) output_filename w) = Inl (SystemExit 1)
   \<and> files (snd (snd (QCStats_output_qc (QCStats_init []) output_filename w))) = files w
   \<and> fst (QCStats_output_qc (self\<lparr>samples := []\<rparr>) output_filename w) = Inl (SystemExit 1)
   \<and> files (snd (snd (QCStats_output_qc (self\<lparr>samples := []\<rparr>) output_filename w))) = files w"
  by (simp add: compile_qc_def QCStats_output_qc_def QCStats_init_def)

section \<open>write\<close>

lemma output_qc_existing_file:
  assumes "isfile (path_join (path_join (qc_outdir self) (label (qc_sample self)))
                     (label (qc_sample self) @ ''.qc.txt'')) w"
  shows "fst (output_qc self w) = Inl (NameError ''qc_filename'')
         \<and> files (snd (snd (output_qc self w))) = files w"
  using assms by (simp add: output_qc_def Let_def make_dir_def isfile_def)

text \<open>
  C3.  The claim asks that \<^verbatim>\<open>output_qc\<close> on a sample whose QC file exists does not fail.
  In the world \<open>ex_world_done\<close> the QC file of \<open>s1\<close> exists, and \<^verbatim>\<open>output_qc\<close> raises
  \<open>NameError\<close> at line 134; the sample directory has been made and no file is touched.
  (By \<open>output_qc_existing_file\<close> the same holds whenever the file exists.)
\<close>

theorem output_qc_existing_file_raises:
  "isfile ''out/qc/s1/s1.qc.txt'' ex_world_done
   \<and> output_qc ex_qc ex_world_done
       = (Inl (NameError ''qc_filename''),
          ex_qc\<lparr>qc_filename := Some ''out/qc/s1/s1.qc.txt''\<rparr>,
          ex_world_done\<lparr>dirs := {''out/qc/s1''}\<rparr>)"
  by (simp add: output_qc_def Let_def make_dir_def isfile_def path_join_def
      ex_qc_def ex_sample_def ex_world_done_def ex_world_def)

section \<open>base_call_error_profile\<close>

lemma dd_get_incr: "dd_get (dd_incr d k) j = (if j = k then dd_get d k + 1 else dd_get d j)"
  by (simp add: dd_get_def dd_incr_def dict_set_def update_conv')

lemma dd_incr_keys: "set (dict_keys (dd_incr d k)) = insert k (set (dict_keys d))"
  by (simp add: dd_incr_def dict_set_keys)

lemma scan_seq_keys:
  "scan_seq seq ns (nb, nr) = (nb', nr') \<Longrightarrow>
   set (dict_keys nr') = set (dict_keys nr) \<union> set ns"
  by (induction ns arbitrary: nb nr) (auto simp: dd_incr_keys split: if_splits)

lemma scan_seq_counts:
  "scan_seq seq ns (nb, nr) = (nb', nr') \<Longrightarrow>
   (\<forall>k. 0 \<le> dd_get nb k \<and> dd_get nb k \<le> dd_get nr k) \<Longrightarrow>
   (\<forall>k \<in> set (dict_keys nr). 1 \<le> dd_get nr k) \<Longrightarrow>
   (\<forall>k. 0 \<le> dd_get nb' k \<and> dd_get nb' k \<le> dd_get nr' k)
   \<and> (\<forall>k \<in> set (dict_keys nr'). 1 \<le> dd_get nr' k)"
proof (induction ns arbitrary: nb nr)
  case Nil
  then show ?case by simp
next
  case (Cons n ns)
  let ?nb = "if seq ! n = CHR ''N'' then dd_incr nb n else nb"
  let ?nr = "dd_incr nr n"
  from Cons.prems(1) have s: "scan_seq seq ns (?nb, ?nr) = (nb', nr')" by simp
  have a: "\<forall>k. 0 \<le> dd_get ?nb k \<and> dd_get ?nb k \<le> dd_get ?nr k"
    using Cons.prems(2) by (auto simp: dd_get_incr intro: order_trans add_increasing2)
  have b: "\<forall>k \<in> set (dict_keys ?nr). 1 \<le> dd_get ?nr k"
  proof
    fix k assume "k \<in> set (dict_keys ?nr)"
    then have "k = n \<or> k \<in> set (dict_keys nr)" by (simp add: dd_incr_keys)
    moreover have "0 \<le> dd_get nr n" using Cons.prems(2) order_trans by blast
    ultimately show "1 \<le> dd_get ?nr k" using Cons.prems(3) by (auto simp: dd_get_incr)
  qed
  from Cons.IH [OF s a b] show ?case .
qed


lemma scan_entries_keys:
  "scan_entries es None (nb, nr, c) = ((nb', nr', c'), fl) \<Longrightarrow>
   fl \<and> set (dict_keys nr') = set (dict_keys nr) \<union> (\<Union>e \<in> set es. {0 ..< length (fst (snd e))})"
proof (induction es arbitrary: nb nr c)
  case Nil
  then show ?case by simp
next
  case (Cons entry es)
  obtain header1 seq header2 qual where e: "entry = (header1, seq, header2, qual)"
    by (cases entry)
  obtain nb1 nr1 where s: "scan_seq seq [0 ..< length seq] (nb, nr) = (nb1, nr1)"
    by (cases "scan_seq seq [0 ..< length seq] (nb, nr)")
  from Cons.prems e s have r: "scan_entries es None (nb1, nr1, c + 1) = ((nb', nr', c'), fl)"
    by simp
  from scan_seq_keys [OF s] Cons.IH [OF r] e show ?case by auto
qed

lemma scan_entries_counts:
  "scan_entries es None (nb, nr, c) = ((nb', nr', c'), fl) \<Longrightarrow>
   (\<forall>k. 0 \<le> dd_get nb k \<and> dd_get nb k \<le> dd_get nr k) \<Longrightarrow>
   (\<forall>k \<in> set (dict_keys nr). 1 \<le> dd_get nr k) \<Longrightarrow>
   (\<forall>k. 0 \<le> dd_get nb' k \<and> dd_get nb' k \<le> dd_get nr' k)
   \<and> (\<forall>k \<in> set (dict_keys nr'). 1 \<le> dd_get nr' k)"
proof (induction es arbitrary: nb nr c)
  case Nil
  then show ?case by simp
next
  case (Cons entry es)
  obtain header1 seq header2 qual where e: "entry = (header1, seq, header2, qual)"
    by (cases entry)
  obtain nb1 nr1 where s: "scan_seq seq [0 ..< length seq] (nb, nr) = (nb1, nr1)"
    by (cases "scan_seq seq [0 ..< length seq] (nb, nr)")
  from Cons.prems(1) e s have r: "scan_entries es None (nb1, nr1, c + 1) = ((nb', nr', c'), fl)"
    by simp
  from scan_seq_counts [OF s Cons.prems(2) Cons.prems(3)]
  have a: "\<forall>k. 0 \<le> dd_get nb1 k \<and> dd_get nb1 k \<le> dd_get nr1 k"
    and b: "\<forall>k \<in> set (dict_keys nr1). 1 \<le> dd_get nr1 k" by simp_all
  from Cons.IH [OF r a b] show ?case .
qed

lemma percent_loop_total:
  "\<forall>p \<in> set ps. dd_get nr p \<noteq> 0 \<Longrightarrow>
   percent_loop ps nb nr acc
     = Inr (acc @ map (\<lambda>p. of_int (dd_get nb p) / of_int (dd_get nr p)) ps)"
  by (induction ps arbitrary: acc) simp_all

lemma py_max_nonempty:
  assumes "ks \<noteq> []"
  shows "py_max ks = Inr (Max (set ks))"
proof (cases ks)
  case Nil
  with assms show ?thesis by simp
next
  case (Cons x xs)
  have "Max (set (x # xs)) = fold max xs x" by (rule Max.set_eq_fold)
  with Cons show ?thesis by simp
qed

lemma get_seq_cycle_profile_length:
  assumes o: "read_open_fastq f w = Inr ls"
    and p: "read_fastq ls = (es, None)"
    and ne: "\<exists>e \<in> set es. fst (snd e) \<noteq> []"
  shows "\<exists>ps. fst (get_seq_cycle_profile self f None w) = Inr ps
           \<and> Suc (length ps) = Max ((\<lambda>e. length (fst (snd e))) ` set es)
           \<and> (\<forall>x \<in> set ps. 0 \<le> x \<and> x \<le> 1)"
proof -
  let ?len = "\<lambda>e::fastq_entry. length (fst (snd e))"
  let ?M = "Max (?len ` set es)"
  obtain nb nr c fl where s: "scan_entries es None ([], [], 0) = ((nb, nr, c), fl)"
    by (metis prod.exhaust)
  from scan_entries_keys [OF s]
  have fl: fl and K: "set (dict_keys nr) = (\<Union>e \<in> set es. {0 ..< ?len e})"
    by (simp_all add: dict_keys_def)
  have "(\<forall>k. 0 \<le> dd_get nb k \<and> dd_get nb k \<le> dd_get nr k)
        \<and> (\<forall>k \<in> set (dict_keys nr). 1 \<le> dd_get nr k)"
    by (rule scan_entries_counts [OF s]) (simp_all add: dd_get_def dict_keys_def)
  then have c1: "\<And>k. 0 \<le> dd_get nb k" and c2: "\<And>k. dd_get nb k \<le> dd_get nr k"
    and c3: "\<And>k. k \<in> set (dict_keys nr) \<Longrightarrow> 1 \<le> dd_get nr k" by simp_all
  have fin: "finite (?len ` set es)" and nonempty: "?len ` set es \<noteq> {}"
    using ne by auto
  have Mpos: "0 < ?M" using ne fin nonempty by (auto simp: Max_gr_iff)
  have Kset: "set (dict_keys nr) = {0 ..< ?M}"
  proof (rule set_eqI)
    fix k
    have "k \<in> set (dict_keys nr) \<longleftrightarrow> (\<exists>e \<in> set es. k < ?len e)" by (auto simp: K)
    also have "\<dots> \<longleftrightarrow> k < ?M" using fin nonempty by (auto simp: Max_gr_iff)
    finally show "k \<in> set (dict_keys nr) \<longleftrightarrow> k \<in> {0 ..< ?M}" by simp
  qed
  have keys_ne: "dict_keys nr \<noteq> []" using Kset Mpos by auto
  have "Max (set (dict_keys nr)) = ?M - 1"
    unfolding Kset using Mpos by (intro Max_eqI) auto
  with py_max_nonempty [OF keys_ne] have m: "py_max (dict_keys nr) = Inr (?M - 1)" by simp
  let ?ps = "map (\<lambda>p. (of_int (dd_get nb p) / of_int (dd_get nr p) :: rat)) [0 ..< ?M - 1]"
  have nz: "\<forall>p \<in> set [0 ..< ?M - 1]. dd_get nr p \<noteq> 0"
  proof
    fix p assume "p \<in> set [0 ..< ?M - 1]"
    then have "p \<in> set (dict_keys nr)" unfolding Kset by auto
    from c3 [OF this] show "dd_get nr p \<noteq> 0" by simp
  qed
  from percent_loop_total [OF nz, of nb "[]"]
  have pl: "percent_loop [0 ..< ?M - 1] nb nr [] = Inr ?ps" by simp
  have r: "fst (get_seq_cycle_profile self f None w) = Inr ?ps"
    using o p s fl m pl by (simp add: get_seq_cycle_profile_def Let_def)
  have l: "Suc (length ?ps) = ?M" using Mpos by simp
  have rng: "\<forall>x \<in> set ?ps. 0 \<le> x \<and> x \<le> 1"
  proof
    fix x assume "x \<in> set ?ps"
    then obtain p where pm: "p < ?M - 1"
      and x: "x = of_int (dd_get nb p) / of_int (dd_get nr p)" by auto
    from pm have "p \<in> set (dict_keys nr)" unfolding Kset by auto
    from c3 [OF this] have pos: "0 < dd_get nr p" by simp
    from c1 [of p] c2 [of p] pos show "0 \<le> x \<and> x \<le> 1"
      unfolding x by (simp add: divide_le_eq)
  qed
  from r l rng show ?thesis by blast
qed

text \<open>
  C2.  The claim asks for one ratio per position up to the longest read, and for 0.3 at
  position 0 of a file of ten entries of which three have an \<open>N\<close> there.  On the read
  file \<open>ex_profile_fastq\<close>, ten reads of one base, three of them \<open>N\<close>, the longest read
  has length 1 and \<^verbatim>\<open>get_seq_cycle_profile\<close> returns the empty list: line 182 ranges over
  \<^verbatim>\<open>range(max(num_reads.keys()))\<close>, and the largest key is the longest length minus 1.
  (By \<open>get_seq_cycle_profile_length\<close> the list returned is always one short of the
  longest read, and its entries lie between 0 and 1.)
\<close>

theorem get_seq_cycle_profile_drops_last_position:
  "map (\<lambda>(header1, seq, header2, qual). seq) (fst (read_fastq ex_profile_fastq))
     = [''N'', ''N'', ''N'', ''A'', ''C'', ''G'', ''T'', ''A'', ''C'', ''G'']
   \<and> snd (read_fastq ex_profile_fastq) = None
   \<and> fst (get_seq_cycle_profile ex_qc ''p.fastq'' None ex_profile_world) = Inr []"
  by (simp add: get_seq_cycle_profile_def read_open_fastq_def ex_profile_world_def
      ex_profile_fastq_def dd_incr_def dd_get_def dict_set_def dict_keys_def Let_def)

end
